theory Spec2Isabelle
  imports Main
begin

section \<open>JavaScript values\<close>

text \<open>
  The exception filter receives a value of type \<open>unknown\<close> and inspects its shape at
  run time, so the model works on untyped values. The values are those of plain data:
  \<^item> \<open>JNum\<close> stands for the integral numbers (HTTP status codes, counts);
  \<^item> \<open>JArr\<close> is an ordinary array without holes;
  \<^item> \<open>JObj\<close> is a plain object: its prototype is \<open>Object.prototype\<close> and it has data
    properties only, listed in the order in which the engine enumerates them, each name
    once, each holding a value of this type. No property holds a function, so a
    property named \<open>toString\<close> or \<open>valueOf\<close> hides the inherited method behind a value
    that cannot be called.
  Class instances with methods of their own, objects without a prototype, accessors and
  proxies are not values of this type, and nothing is stated about them.
\<close>

datatype jsval =
    JUndefined
  | JNull
  | JBool bool
  | JNum int
  | JStr string
  | JArr "jsval list"
  | JObj "(string \<times> jsval) list"

text \<open>
  A \<open>TypeError\<close> is what the engine raises when a property of \<open>null\<close> or \<open>undefined\<close> is
  read, when something that is not a function is called, or when an object cannot be
  converted to a primitive. \<open>OutOfModel\<close> is not a failure of the program: it is the
  result of a run that would have to render a number that is no safe integer, the one
  thing the functions below do not compute.
\<close>

datatype js_error = TypeError | OutOfModel

text \<open>\<open>v === undefined || v === null\<close>, the test behind \<open>??\<close> and \<open>?.\<close>.\<close>

fun nullish :: "jsval \<Rightarrow> bool" where
  "nullish JUndefined = True"
| "nullish JNull = True"
| "nullish _ = False"

text \<open>\<open>a ?? b\<close>\<close>

definition coalesce :: "jsval \<Rightarrow> jsval \<Rightarrow> jsval" where
  "coalesce a b = (if nullish a then b else a)"

text \<open>The truthiness test of \<open>c ? x : y\<close> and \<open>a && b\<close>.\<close>

fun truthy :: "jsval \<Rightarrow> bool" where
  "truthy JUndefined = False"
| "truthy JNull = False"
| "truthy (JBool b) = b"
| "truthy (JNum n) = (n \<noteq> 0)"
| "truthy (JStr s) = (s \<noteq> [])"
| "truthy (JArr _) = True"
| "truthy (JObj _) = True"

text \<open>\<open>typeof v === 'string'\<close> and \<open>Array.isArray(v)\<close>.\<close>

fun is_string :: "jsval \<Rightarrow> bool" where
  "is_string (JStr _) = True"
| "is_string _ = False"

fun isArray :: "jsval \<Rightarrow> bool" where
  "isArray (JArr _) = True"
| "isArray _ = False"

text \<open>\<open>typeof v === 'object' && v !== null && !Array.isArray(v)\<close>\<close>

fun is_plain_object :: "jsval \<Rightarrow> bool" where
  "is_plain_object (JObj _) = True"
| "is_plain_object _ = False"

text \<open>The elements of an array (used only under an \<open>Array.isArray\<close> guard).\<close>

fun elements :: "jsval \<Rightarrow> jsval list" where
  "elements (JArr xs) = xs"
| "elements _ = []"

text \<open>
  Reading a property of a value that is neither \<open>null\<close> nor \<open>undefined\<close>. The names the
  filter reads (\<open>message\<close>, \<open>error\<close>, \<open>property\<close>, \<open>constraints\<close>, \<open>code\<close>, \<open>meta\<close>,
  \<open>target\<close>) are defined on no built-in prototype, so on a primitive or an array the
  read gives \<open>undefined\<close>.
\<close>

definition own_prop :: "(string \<times> jsval) list \<Rightarrow> string \<Rightarrow> jsval" where
  "own_prop ps k = (case map_of ps k of None \<Rightarrow> JUndefined | Some v \<Rightarrow> v)"

fun read_prop :: "jsval \<Rightarrow> string \<Rightarrow> jsval" where
  "read_prop (JObj ps) k = own_prop ps k"
| "read_prop _ k = JUndefined"

text \<open>\<open>v.k\<close>: raises on \<open>null\<close> and \<open>undefined\<close>.\<close>

definition get_prop :: "jsval \<Rightarrow> string \<Rightarrow> js_error + jsval" where
  "get_prop v k = (if nullish v then Inl TypeError else Inr (read_prop v k))"

text \<open>\<open>v?.k\<close>: \<open>undefined\<close> on \<open>null\<close> and \<open>undefined\<close>.\<close>

definition opt_prop :: "jsval \<Rightarrow> string \<Rightarrow> jsval" where
  "opt_prop v k = (if nullish v then JUndefined else read_prop v k)"

text \<open>\<open>Object.values(v)\<close>: the property values of an object, the elements of an array,
  the characters of a string, nothing for a number or a boolean.\<close>

fun object_values :: "jsval \<Rightarrow> js_error + jsval list" where
  "object_values JUndefined = Inl TypeError"
| "object_values JNull = Inl TypeError"
| "object_values (JBool _) = Inr []"
| "object_values (JNum _) = Inr []"
| "object_values (JStr s) = Inr (map (\<lambda>c. JStr [c]) s)"
| "object_values (JArr xs) = Inr xs"
| "object_values (JObj ps) = Inr (map snd ps)"

subsection \<open>Conversion to string\<close>

text \<open>
  The decimal numeral of an integer. It is the text JavaScript gives for a number that
  is a safe integer (of magnitude at most \<open>2^53 - 1\<close>, \<open>Number.MAX_SAFE_INTEGER\<close>);
  larger numbers are rendered with rounded digits or an exponent, which is not
  modelled, so every function below renders a number only after the test
  \<open>safe_integer\<close>.
\<close>

definition safe_integer :: "int \<Rightarrow> bool" where
  "safe_integer i = (- 9007199254740991 \<le> i \<and> i \<le> 9007199254740991)"

definition digit :: "nat \<Rightarrow> char" where
  "digit d =
     (if d = 0 then CHR ''0'' else if d = 1 then CHR ''1'' else if d = 2 then CHR ''2''
      else if d = 3 then CHR ''3'' else if d = 4 then CHR ''4'' else if d = 5 then CHR ''5''
      else if d = 6 then CHR ''6'' else if d = 7 then CHR ''7'' else if d = 8 then CHR ''8''
      else CHR ''9'')"

fun show_nat :: "nat \<Rightarrow> string" where
  "show_nat n = (if n < 10 then [digit n] else show_nat (n div 10) @ [digit (n mod 10)])"

declare show_nat.simps [simp del]

definition show_int :: "int \<Rightarrow> string" where
  "show_int i = (if i < 0 then CHR ''-'' # show_nat (nat (- i)) else show_nat (nat i))"

text \<open>The separator-joined concatenation behind \<open>Array.prototype.join\<close>.\<close>

fun intercalate :: "string \<Rightarrow> string list \<Rightarrow> string" where
  "intercalate sep [] = []"
| "intercalate sep [s] = s"
| "intercalate sep (s # t # ss) = s @ sep @ intercalate sep (t # ss)"

text \<open>The results of converting the elements of an array in order: the first
  conversion that fails ends the traversal.\<close>

fun collect :: "(js_error + 'a) list \<Rightarrow> js_error + 'a list" where
  "collect [] = Inr []"
| "collect (Inl err # rs) = Inl err"
| "collect (Inr x # rs) = (case collect rs of Inl err \<Rightarrow> Inl err | Inr xs \<Rightarrow> Inr (x # xs))"

text \<open>
  \<open>String(v)\<close>. An array is its elements joined by a comma, where \<open>null\<close> and
  \<open>undefined\<close> elements render as the empty string. A plain object is converted by the
  inherited \<open>toString\<close>, which gives \<open>[object Object]\<close>, unless it has a property named
  \<open>toString\<close>: that value cannot be called, the inherited \<open>valueOf\<close> (or a \<open>valueOf\<close>
  property, which cannot be called either) yields no primitive, and the conversion
  raises a \<open>TypeError\<close>.
\<close>

fun ToString :: "jsval \<Rightarrow> js_error + string" where
  "ToString JUndefined = Inr ''undefined''"
| "ToString JNull = Inr ''null''"
| "ToString (JBool b) = Inr (if b then ''true'' else ''false'')"
| "ToString (JNum n) = (if safe_integer n then Inr (show_int n) else Inl OutOfModel)"
| "ToString (JStr s) = Inr s"
| "ToString (JArr xs) =
     (case collect (map (\<lambda>x. if nullish x then Inr [] else ToString x) xs) of
        Inl err \<Rightarrow> Inl err
      | Inr texts \<Rightarrow> Inr (intercalate '','' texts))"
| "ToString (JObj ps) =
     (if map_of ps ''toString'' \<noteq> None then Inl TypeError else Inr ''[object Object]'')"

text \<open>\<open>xs.join(sep)\<close>\<close>

definition array_join :: "string \<Rightarrow> jsval list \<Rightarrow> js_error + string" where
  "array_join sep xs =
     (case collect (map (\<lambda>x. if nullish x then Inr [] else ToString x) xs) of
        Inl err \<Rightarrow> Inl err
      | Inr texts \<Rightarrow> Inr (intercalate sep texts))"

subsection \<open>JSON text\<close>

text \<open>
  \<open>JSON.stringify(v)\<close> as it appears inside a template literal. A string is quoted, with
  the quote, the backslash and the control characters escaped; \<open>undefined\<close> is \<open>null\<close>
  inside an array, is skipped with its key inside an object, and alone gives the text
  \<open>undefined\<close>. It is the text of \<open>v\<close> when every number in \<open>v\<close> is a safe integer,
  which \<open>renderable\<close> tests.
\<close>

fun renderable :: "jsval \<Rightarrow> bool" where
  "renderable (JNum n) = safe_integer n"
| "renderable (JArr xs) = list_all renderable xs"
| "renderable (JObj ps) = list_all (\<lambda>kv. renderable (snd kv)) ps"
| "renderable _ = True"

definition hex_digit :: "nat \<Rightarrow> char" where
  "hex_digit d = (''0123456789abcdef'' ! d)"

definition json_escape :: "char \<Rightarrow> string" where
  "json_escape c =
     (if c = CHR 0x22 then [CHR 0x5C, CHR 0x22]
      else if c = CHR 0x5C then [CHR 0x5C, CHR 0x5C]
      else if c = CHR 0x08 then [CHR 0x5C, CHR ''b'']
      else if c = CHR 0x09 then [CHR 0x5C, CHR ''t'']
      else if c = CHR 0x0A then [CHR 0x5C, CHR ''n'']
      else if c = CHR 0x0C then [CHR 0x5C, CHR ''f'']
      else if c = CHR 0x0D then [CHR 0x5C, CHR ''r'']
      else if of_char c < (32::nat)
      then [CHR 0x5C, CHR ''u'', CHR ''0'', CHR ''0'',
            hex_digit (of_char c div 16), hex_digit (of_char c mod 16)]
      else [c])"

definition json_quote :: "string \<Rightarrow> string" where
  "json_quote s = [CHR 0x22] @ concat (map json_escape s) @ [CHR 0x22]"

fun json_stringify :: "jsval \<Rightarrow> string" where
  "json_stringify JUndefined = ''undefined''"
| "json_stringify JNull = ''null''"
| "json_stringify (JBool b) = (if b then ''true'' else ''false'')"
| "json_stringify (JNum n) = show_int n"
| "json_stringify (JStr s) = json_quote s"
| "json_stringify (JArr xs) =
     ''['' @ intercalate '',''
        (map (\<lambda>x. if x = JUndefined then ''null'' else json_stringify x) xs) @ '']''"
| "json_stringify (JObj ps) =
     ''{'' @ intercalate '',''
        (map (\<lambda>kv. json_quote (fst kv) @ '':'' @ json_stringify (snd kv))
           (filter (\<lambda>kv. snd kv \<noteq> JUndefined) ps)) @ ''}''"

section \<open>The error envelope\<close>

text \<open>
  \<open>ErrorResponseDto\<close>, \<open>ErrorResponseDetails\<close> and \<open>ValidationErrorItem\<close> of the filter's
  source file. The declared types of \<open>message\<close>, \<open>error\<close>, \<open>field\<close> and \<open>messages\<close>
  are strings and string arrays, but the filter copies them from the caught value
  unchecked, so they are untyped values here. An optional field is an \<open>option\<close>:
  \<open>None\<close> is a field whose value is \<open>undefined\<close> or that the object literal leaves out,
  and which the JSON body therefore does not contain.
\<close>

record ValidationErrorItem =
  field :: jsval
  messages :: "jsval list"

record ErrorResponseDetails =
  errors :: "ValidationErrorItem list"

record ErrorResponseDto =
  statusCode :: int
  message :: jsval
  error :: jsval
  traceId :: "string option"
  details :: "ErrorResponseDetails option"

subsection \<open>Constants of the filter\<close>

definition PRISMA_UNIQUE_VIOLATION :: string where
  "PRISMA_UNIQUE_VIOLATION = ''P2002''"

definition PRISMA_RECORD_NOT_FOUND :: string where
  "PRISMA_RECORD_NOT_FOUND = ''P2025''"

text \<open>The members of the framework's \<open>HttpStatus\<close> enumeration that the filter names.\<close>

definition BAD_REQUEST :: int where "BAD_REQUEST = 400"
definition UNAUTHORIZED :: int where "UNAUTHORIZED = 401"
definition FORBIDDEN :: int where "FORBIDDEN = 403"
definition NOT_FOUND :: int where "NOT_FOUND = 404"
definition CONFLICT :: int where "CONFLICT = 409"
definition INTERNAL_SERVER_ERROR :: int where "INTERNAL_SERVER_ERROR = 500"

definition STATUS_TEXT :: "int \<rightharpoonup> string" where
  "STATUS_TEXT =
     [BAD_REQUEST \<mapsto> ''Bad Request'',
      UNAUTHORIZED \<mapsto> ''Unauthorized'',
      FORBIDDEN \<mapsto> ''Forbidden'',
      NOT_FOUND \<mapsto> ''Not Found'',
      CONFLICT \<mapsto> ''Conflict'',
      INTERNAL_SERVER_ERROR \<mapsto> ''Internal Server Error'']"

definition getStatusText :: "int \<Rightarrow> string" where
  "getStatusText sc = (case STATUS_TEXT sc of Some t \<Rightarrow> t | None \<Rightarrow> ''Error'')"

section \<open>Caught values\<close>

text \<open>
  What \<open>catch\<close> can receive, split by the two \<open>instanceof\<close> tests the filter makes.
  \<^item> \<open>HttpException st raw msg ps\<close>: an instance of the framework's \<open>HttpException\<close>, with
    \<open>getStatus() = st\<close>, \<open>getResponse() = raw\<close>, \<open>message = msg\<close> and further own
    properties \<open>ps\<close>. Its stack is left out: the filter never reads it.
  \<^item> \<open>ErrorInstance msg stk ps\<close>: any other instance of \<open>Error\<close> with its \<open>message\<close>, its
    \<open>stack\<close> when it has one, and further own properties \<open>ps\<close> (a persistence failure
    carries \<open>code\<close> and \<open>meta\<close> there).
  \<^item> \<open>Thrown v\<close>: a value that is not an \<open>Error\<close> (a string, a plain object, \<open>undefined\<close>).
\<close>

datatype caught =
    HttpException int jsval string "(string \<times> jsval) list"
  | ErrorInstance string "string option" "(string \<times> jsval) list"
  | Thrown jsval

fun instanceof_HttpException :: "caught \<Rightarrow> bool" where
  "instanceof_HttpException (HttpException _ _ _ _) = True"
| "instanceof_HttpException _ = False"

fun instanceof_Error :: "caught \<Rightarrow> bool" where
  "instanceof_Error (Thrown _) = False"
| "instanceof_Error _ = True"

text \<open>\<open>exception.message\<close>, read under an \<open>instanceof Error\<close> guard only.\<close>

fun error_message :: "caught \<Rightarrow> string" where
  "error_message (HttpException _ _ msg _) = msg"
| "error_message (ErrorInstance msg _ _) = msg"
| "error_message (Thrown _) = []"

text \<open>\<open>exception.stack\<close>, read by \<open>catch\<close> only in the branch that a value which is an
  \<open>Error\<close> but not an \<open>HttpException\<close> reaches.\<close>

fun error_stack :: "caught \<Rightarrow> string option" where
  "error_stack (ErrorInstance _ stk _) = stk"
| "error_stack _ = None"

text \<open>\<open>(exception as {k?: ...})?.k\<close> for the names \<open>code\<close> and \<open>meta\<close>.\<close>

fun caught_prop :: "caught \<Rightarrow> string \<Rightarrow> jsval" where
  "caught_prop (HttpException _ _ _ ps) k = own_prop ps k"
| "caught_prop (ErrorInstance _ _ ps) k = own_prop ps k"
| "caught_prop (Thrown v) k = opt_prop v k"

section \<open>The exception filter\<close>

subsection \<open>formatValidationDetails\<close>

text \<open>\<open>xs.map(f)\<close> where \<open>f\<close> may raise: elements are visited in order and the first
  failure ends the traversal.\<close>

fun map_raising :: "('a \<Rightarrow> js_error + 'b) \<Rightarrow> 'a list \<Rightarrow> js_error + 'b list" where
  "map_raising f [] = Inr []"
| "map_raising f (x # xs) =
     (case f x of
        Inl e \<Rightarrow> Inl e
      | Inr y \<Rightarrow> (case map_raising f xs of Inl e \<Rightarrow> Inl e | Inr ys \<Rightarrow> Inr (y # ys)))"

text \<open>
  The arrow function given to \<open>map\<close>:
  \<^verbatim>\<open>(e) => ({ field: e.property ?? 'body',
             messages: e.constraints ? Object.values(e.constraints) : [String(e)] })\<close>
\<close>

definition violation_item :: "jsval \<Rightarrow> js_error + ValidationErrorItem" where
  "violation_item e =
     (case get_prop e ''property'' of
        Inl err \<Rightarrow> Inl err
      | Inr p \<Rightarrow>
         (case get_prop e ''constraints'' of
            Inl err \<Rightarrow> Inl err
          | Inr c \<Rightarrow>
             (if truthy c
              then (case object_values c of
                      Inl err \<Rightarrow> Inl err
                    | Inr vs \<Rightarrow> Inr \<lparr>field = coalesce p (JStr ''body''), messages = vs\<rparr>)
              else (case ToString e of
                      Inl err \<Rightarrow> Inl err
                    | Inr text \<Rightarrow> Inr \<lparr>field = coalesce p (JStr ''body''),
                                         messages = [JStr text]\<rparr>))))"

text \<open>
  The expression both branches of \<open>formatValidationDetails\<close> assign to \<open>errors\<close>:
  \<^verbatim>\<open>arr.every((m) => typeof m === 'string')
    ? [{ field: 'body', messages: arr }]
    : arr.map((e) => ...)\<close>
\<close>

definition validation_errors :: "jsval list \<Rightarrow> js_error + ValidationErrorItem list" where
  "validation_errors arr =
     (if list_all is_string arr
      then Inr [\<lparr>field = JStr ''body'', messages = arr\<rparr>]
      else map_raising violation_item arr)"

definition formatValidationDetails ::
    "jsval \<Rightarrow> jsval \<Rightarrow> js_error + ErrorResponseDetails option" where
  "formatValidationDetails msg raw =
     (if isArray msg \<and> length (elements msg) > 0
      then (case validation_errors (elements msg) of
              Inl err \<Rightarrow> Inl err
            | Inr errs \<Rightarrow> Inr (Some \<lparr>errors = errs\<rparr>))
      else (case get_prop raw ''message'' of
              Inl err \<Rightarrow> Inl err
            | Inr rm \<Rightarrow>
               (if isArray rm \<and> length (elements rm) > 0
                then (case validation_errors (elements rm) of
                        Inl err \<Rightarrow> Inl err
                      | Inr errs \<Rightarrow> Inr (Some \<lparr>errors = errs\<rparr>))
                else Inr None)))"

subsection \<open>normalizeHttpException\<close>

text \<open>The arguments are \<open>exception.getStatus()\<close>, \<open>exception.getResponse()\<close>,
  \<open>exception.message\<close> and the trace id.\<close>

definition normalizeHttpException ::
    "int \<Rightarrow> jsval \<Rightarrow> string \<Rightarrow> string option \<Rightarrow> js_error + ErrorResponseDto" where
  "normalizeHttpException status raw exception_message tid =
     (let statusText = getStatusText status in
      if is_plain_object raw
      then (let msg = read_prop raw ''message'' in
            case formatValidationDetails msg raw of
              Inl err \<Rightarrow> Inl err
            | Inr dets \<Rightarrow>
               Inr \<lparr>statusCode = status,
                    message =
                      (if dets \<noteq> None then JStr ''Validation failed''
                       else coalesce (coalesce msg (JStr exception_message))
                              (JStr ''Request failed'')),
                    error = coalesce (read_prop raw ''error'') (JStr statusText),
                    traceId = tid,
                    details = dets\<rparr>)
      else (let msg = (if is_string raw then raw else JStr exception_message) in
            Inr \<lparr>statusCode = status,
                 message = coalesce msg (JStr ''Request failed''),
                 error = JStr statusText,
                 traceId = tid,
                 details = None\<rparr>))"

subsection \<open>tryMapPrismaError\<close>

text \<open>
  \<open>meta?.target?.join(', ')\<close>: \<open>undefined\<close> (here \<open>None\<close>) when \<open>meta\<close> or \<open>meta.target\<close> is
  \<open>null\<close> or \<open>undefined\<close>; otherwise \<open>join\<close> is called, which only an array has, and
  gives a string.
\<close>

definition join_target :: "jsval \<Rightarrow> js_error + string option" where
  "join_target meta =
     (let target = opt_prop meta ''target'' in
      if nullish target then Inr None
      else if isArray target
      then (case array_join '', '' (elements target) of
              Inl err \<Rightarrow> Inl err
            | Inr joined \<Rightarrow> Inr (Some joined))
      else Inl TypeError)"

text \<open>In the conditional \<open>target ? ... : ...\<close> the joined text counts as true when it is
  a non-empty string.\<close>

definition tryMapPrismaError ::
    "caught \<Rightarrow> string option \<Rightarrow> js_error + ErrorResponseDto option" where
  "tryMapPrismaError exception tid =
     (let code = caught_prop exception ''code'';
          meta = caught_prop exception ''meta'' in
      if code = JStr PRISMA_UNIQUE_VIOLATION
      then (case join_target meta of
              Inl err \<Rightarrow> Inl err
            | Inr target \<Rightarrow>
               Inr (Some \<lparr>statusCode = CONFLICT,
                          message =
                            (case target of
                               Some joined \<Rightarrow>
                                 if joined \<noteq> []
                                 then JStr (''Duplicate value for field(s): '' @ joined)
                                 else JStr ''Resource already exists''
                             | None \<Rightarrow> JStr ''Resource already exists''),
                          error = JStr (getStatusText CONFLICT),
                          traceId = tid,
                          details = None\<rparr>))
      else if code = JStr PRISMA_RECORD_NOT_FOUND
      then Inr (Some \<lparr>statusCode = NOT_FOUND,
                      message = JStr ''Record not found'',
                      error = JStr (getStatusText NOT_FOUND),
                      traceId = tid,
                      details = None\<rparr>)
      else Inr None)"

subsection \<open>normalizeUnknownError\<close>

text \<open>\<open>node_env\<close> is \<open>process.env.NODE_ENV\<close>, \<open>None\<close> when the variable is not set.\<close>

definition normalizeUnknownError ::
    "string option \<Rightarrow> caught \<Rightarrow> string option \<Rightarrow> ErrorResponseDto" where
  "normalizeUnknownError node_env exception tid =
     (let isProduction = (node_env = Some ''production'');
          msg = (if instanceof_Error exception then error_message exception
                 else ''Internal server error'') in
      \<lparr>statusCode = INTERNAL_SERVER_ERROR,
       message = JStr (if isProduction then ''Internal server error'' else msg),
       error = JStr (getStatusText INTERNAL_SERVER_ERROR),
       traceId = tid,
       details = None\<rparr>)"

subsection \<open>buildErrorResponse\<close>

fun buildErrorResponse ::
    "string option \<Rightarrow> caught \<Rightarrow> string option \<Rightarrow> js_error + ErrorResponseDto" where
  "buildErrorResponse node_env (HttpException st raw msg ps) tid =
     normalizeHttpException st raw msg tid"
| "buildErrorResponse node_env exception tid =
     (case tryMapPrismaError exception tid of
        Inl err \<Rightarrow> Inl err
      | Inr (Some prismaResult) \<Rightarrow> Inr prismaResult
      | Inr None \<Rightarrow> Inr (normalizeUnknownError node_env exception tid))"

subsection \<open>catch\<close>

text \<open>What the trace logger is asked to write: \<open>warn(text)\<close> or \<open>error(text, stack)\<close>.\<close>

datatype log_entry = LogWarn string | LogError string "string option"

text \<open>The effects of one run of \<open>catch\<close>: the calls made on the logger, in order, and
  the response written by \<open>response.status(statusCode).json(body)\<close>.\<close>

record FilterEffects =
  log_written :: "log_entry list"
  response_status :: int
  response_json :: ErrorResponseDto

text \<open>
  \<open>node_env\<close> is \<open>process.env.NODE_ENV\<close>, and \<open>tid\<close> is what
  \<open>this.traceContext.getTraceId()\<close> returns (\<open>None\<close> outside a request scope). The filter
  has no handler of its own: a failure raised while the body is built leaves \<open>catch\<close>
  before anything is logged or sent. The text of the warning renders the status and the
  message, so that branch is computed when both can be rendered.
\<close>

definition catch ::
    "string option \<Rightarrow> string option \<Rightarrow> caught \<Rightarrow> js_error + FilterEffects" where
  "catch node_env tid exception =
     (case buildErrorResponse node_env exception tid of
        Inl err \<Rightarrow> Inl err
      | Inr body \<Rightarrow>
         (let sc = statusCode body in
          if instanceof_HttpException exception
          then (if safe_integer sc \<and> renderable (message body)
                then Inr \<lparr>log_written =
                            [LogWarn (''HttpException '' @ show_int sc @ '': ''
                                        @ json_stringify (message body))],
                          response_status = sc,
                          response_json = body\<rparr>
                else Inl OutOfModel)
          else Inr \<lparr>log_written =
                      (if sc \<ge> 500
                       then [LogError
                               (if instanceof_Error exception then error_message exception
                                else ''Unknown error'')
                               (if instanceof_Error exception then error_stack exception
                                else None)]
                       else []),
                    response_status = sc,
                    response_json = body\<rparr>))"

section \<open>The students service\<close>

text \<open>The framework's \<open>new NotFoundException(msg)\<close>: an \<open>HttpException\<close> of status 404
  whose response object carries the message, the status text and the status.\<close>

definition NotFoundException :: "string \<Rightarrow> caught" where
  "NotFoundException msg =
     HttpException NOT_FOUND
       (JObj [(''message'', JStr msg), (''error'', JStr ''Not Found''),
              (''statusCode'', JNum NOT_FOUND)])
       msg []"

text \<open>The object a repository's \<open>delete\<close> resolves to, \<open>{ affected?: number | null }\<close>.\<close>

record DeleteResult =
  affected :: jsval

text \<open>
  \<open>StudentsService.remove\<close>. \<open>delete\<close> gives the outcome of
  \<open>await this.repository.delete(id)\<close>: \<open>Inl\<close> when the promise rejects, which \<open>remove\<close>
  lets through.
\<close>

definition remove :: "(string \<Rightarrow> caught + DeleteResult) \<Rightarrow> string \<Rightarrow> caught + unit" where
  "remove delete ident =
     (case delete ident of
        Inl err \<Rightarrow> Inl err
      | Inr result \<Rightarrow>
         (if affected result = JNum 0
          then Inl (NotFoundException (''Student '' @ ident @ '' not found''))
          else Inr ()))"

text \<open>
  Modelled from the spec: the repository adapter behind \<open>IStudentRepository\<close>, whose
  implementation is not among the sources. A table is the list of stored rows with
  their ids. \<open>delete\<close> removes the rows with the given id and reports how many there
  were; an id that is not stored is not a failure and gives an affected count of zero.
  The result is the outcome of the call and the table afterwards.
\<close>

definition repository_delete ::
    "(string \<times> 'a) list \<Rightarrow> string \<Rightarrow> (caught + DeleteResult) \<times> (string \<times> 'a) list" where
  "repository_delete tbl ident =
     (Inr \<lparr>affected = JNum (int (length (filter (\<lambda>r. fst r = ident) tbl)))\<rparr>,
      filter (\<lambda>r. fst r \<noteq> ident) tbl)"

section \<open>Vocabulary of the specification\<close>

text \<open>
  A structured per-field violation record: an object whose \<open>property\<close> is a string and
  whose \<open>constraints\<close> is an object of messages. \<open>entry_of_record\<close> is the
  \<open>{field, messages[]}\<close> entry the specification assigns to such a record: its field
  name and its constraint messages.
\<close>

definition violation_record :: "jsval \<Rightarrow> bool" where
  "violation_record e =
     (is_plain_object e \<and> is_string (read_prop e ''property'')
        \<and> is_plain_object (read_prop e ''constraints''))"

definition entry_of_record :: "jsval \<Rightarrow> ValidationErrorItem" where
  "entry_of_record e =
     \<lparr>field = read_prop e ''property'',
      messages = (case read_prop e ''constraints'' of JObj cs \<Rightarrow> map snd cs | _ \<Rightarrow> [])\<rparr>"

text \<open>An entry with a non-empty field name and at least one message.\<close>

definition nonempty_entry :: "ValidationErrorItem \<Rightarrow> bool" where
  "nonempty_entry it = (is_string (field it) \<and> field it \<noteq> JStr [] \<and> messages it \<noteq> [])"

text \<open>
  The shape the filter declares for \<open>meta.target\<close> by its cast to \<open>string[]\<close>: absent,
  \<open>null\<close>, or an array of strings. \<open>field_names\<close> are the strings of that array.
\<close>

definition declared_target :: "caught \<Rightarrow> bool" where
  "declared_target exception =
     (let target = opt_prop (caught_prop exception ''meta'') ''target'' in
      nullish target \<or> (isArray target \<and> list_all is_string (elements target)))"

definition field_names :: "caught \<Rightarrow> string list" where
  "field_names exception =
     map (\<lambda>x. case x of JStr s \<Rightarrow> s | _ \<Rightarrow> [])
       (elements (opt_prop (caught_prop exception ''meta'') ''target''))"

text \<open>
  A well-formed envelope, as \<open>ErrorResponseDto\<close> declares it: \<open>message\<close> is a string or an
  array of strings, \<open>error\<close> is a string, and every entry of \<open>details.errors\<close> has a
  string as field and strings as messages.
\<close>

definition well_formed_item :: "ValidationErrorItem \<Rightarrow> bool" where
  "well_formed_item it = (is_string (field it) \<and> list_all is_string (messages it))"

definition well_formed :: "ErrorResponseDto \<Rightarrow> bool" where
  "well_formed body =
     ((is_string (message body)
         \<or> (isArray (message body) \<and> list_all is_string (elements (message body))))
      \<and> is_string (error body)
      \<and> (case details body of
            None \<Rightarrow> True
          | Some d \<Rightarrow> list_all well_formed_item (errors d)))"

text \<open>The catch-all class \<open>UnknownFailure\<close>: not an \<open>HttpException\<close> and no recognised
  vendor code.\<close>

definition unknown_failure :: "caught \<Rightarrow> bool" where
  "unknown_failure exception =
     (\<not> instanceof_HttpException exception
        \<and> caught_prop exception ''code'' \<noteq> JStr PRISMA_UNIQUE_VIOLATION
        \<and> caught_prop exception ''code'' \<noteq> JStr PRISMA_RECORD_NOT_FOUND)"

section \<open>Auxiliary facts\<close>

lemmas status_defs =
  BAD_REQUEST_def UNAUTHORIZED_def FORBIDDEN_def NOT_FOUND_def CONFLICT_def
  INTERNAL_SERVER_ERROR_def

lemma getStatusText_values:
  "getStatusText 404 = ''Not Found''"
  "getStatusText 409 = ''Conflict''"
  "getStatusText 500 = ''Internal Server Error''"
  by (simp_all add: getStatusText_def STATUS_TEXT_def status_defs)

subsection \<open>What the validation formatter returns\<close>

lemma violation_item_record:
  "violation_record e \<Longrightarrow> violation_item e = Inr (entry_of_record e)"
  unfolding violation_record_def
  by (cases e; cases "read_prop e ''property''"; cases "read_prop e ''constraints''")
     (simp_all add: violation_item_def get_prop_def entry_of_record_def coalesce_def)

lemma map_raising_records:
  "list_all violation_record xs \<Longrightarrow>
     map_raising violation_item xs = Inr (map entry_of_record xs)"
  by (induction xs) (simp_all add: violation_item_record)

lemma record_not_string: "violation_record e \<Longrightarrow> \<not> is_string e"
  by (cases e) (simp_all add: violation_record_def)

lemma records_not_strings:
  "xs \<noteq> [] \<Longrightarrow> list_all violation_record xs \<Longrightarrow> \<not> list_all is_string xs"
  by (cases xs) (auto simp: record_not_string)

lemma validation_errors_strings:
  "list_all is_string xs \<Longrightarrow>
     validation_errors xs = Inr [\<lparr>field = JStr ''body'', messages = xs\<rparr>]"
  by (simp add: validation_errors_def)

lemma validation_errors_records:
  "xs \<noteq> [] \<Longrightarrow> list_all violation_record xs \<Longrightarrow>
     validation_errors xs = Inr (map entry_of_record xs)"
  by (simp add: validation_errors_def records_not_strings map_raising_records)

lemma formatValidationDetails_array:
  "arr \<noteq> [] \<Longrightarrow>
     formatValidationDetails (JArr arr) raw =
       (case validation_errors arr of
          Inl err \<Rightarrow> Inl err
        | Inr errs \<Rightarrow> Inr (Some \<lparr>errors = errs\<rparr>))"
  by (simp add: formatValidationDetails_def)

lemma normalizeHttpException_statusCode:
  "normalizeHttpException st raw msg tid = Inr body \<Longrightarrow>
     statusCode body = st \<and> traceId body = tid"
  by (auto simp: normalizeHttpException_def Let_def split: if_splits sum.splits)

lemma normalizeHttpException_validation:
  assumes "own_prop ps ''message'' = JArr arr" and "arr \<noteq> []"
    and "validation_errors arr = Inr es"
  shows "normalizeHttpException st (JObj ps) msg tid =
           Inr \<lparr>statusCode = st, message = JStr ''Validation failed'',
                error = coalesce (own_prop ps ''error'') (JStr (getStatusText st)),
                traceId = tid, details = Some \<lparr>errors = es\<rparr>\<rparr>"
  using assms by (simp add: normalizeHttpException_def formatValidationDetails_array Let_def)


lemma field_entry_of_record: "field (entry_of_record e) = read_prop e ''property''"
  by (simp add: entry_of_record_def)

lemma entry_of_record_nonempty:
  "violation_record e \<Longrightarrow>
     nonempty_entry (entry_of_record e)
       \<longleftrightarrow> read_prop e ''property'' \<noteq> JStr [] \<and> read_prop e ''constraints'' \<noteq> JObj []"
  by (cases "read_prop e ''constraints''")
     (auto simp: violation_record_def nonempty_entry_def entry_of_record_def)

subsection \<open>The vendor-code mapping\<close>

lemma collect_strings:
  "list_all is_string xs \<Longrightarrow>
     collect (map (\<lambda>x. if nullish x then Inr [] else ToString x) xs)
       = Inr (map (\<lambda>x. case x of JStr s \<Rightarrow> s | _ \<Rightarrow> []) xs)"
proof (induction xs)
  case Nil
  show ?case by simp
next
  case (Cons x xs)
  then obtain s where "x = JStr s" by (cases x) simp_all
  with Cons show ?case by simp
qed

lemma array_join_strings:
  "list_all is_string xs \<Longrightarrow>
     array_join sep xs = Inr (intercalate sep (map (\<lambda>x. case x of JStr s \<Rightarrow> s | _ \<Rightarrow> []) xs))"
  by (simp add: array_join_def collect_strings)

lemma join_target_declared:
  assumes "declared_target exception"
  shows "join_target (caught_prop exception ''meta'') =
           Inr (if nullish (opt_prop (caught_prop exception ''meta'') ''target'') then None
                else Some (intercalate '', '' (field_names exception)))"
  using assms
  by (auto simp: declared_target_def join_target_def field_names_def array_join_strings Let_def)

lemma field_names_nullish:
  "nullish (opt_prop (caught_prop exception ''meta'') ''target'') \<Longrightarrow>
     field_names exception = []"
  by (cases "opt_prop (caught_prop exception ''meta'') ''target''")
     (simp_all add: field_names_def)

lemma tryMapPrismaError_unknown:
  "unknown_failure exception \<Longrightarrow> tryMapPrismaError exception tid = Inr None"
  by (simp add: tryMapPrismaError_def unknown_failure_def Let_def)

lemma tryMapPrismaError_unique:
  assumes "caught_prop exception ''code'' = JStr PRISMA_UNIQUE_VIOLATION"
    and "declared_target exception"
  shows "tryMapPrismaError exception tid =
           Inr (Some \<lparr>statusCode = 409,
                      message =
                        (if intercalate '', '' (field_names exception) \<noteq> []
                         then JStr (''Duplicate value for field(s): ''
                                      @ intercalate '', '' (field_names exception))
                         else JStr ''Resource already exists''),
                      error = JStr ''Conflict'', traceId = tid, details = None\<rparr>)"
  using assms(1) join_target_declared [OF assms(2)]
  by (simp add: tryMapPrismaError_def getStatusText_values status_defs Let_def
        field_names_nullish)

lemma tryMapPrismaError_not_found:
  assumes "caught_prop exception ''code'' = JStr PRISMA_RECORD_NOT_FOUND"
  shows "tryMapPrismaError exception tid =
           Inr (Some \<lparr>statusCode = 404, message = JStr ''Record not found'',
                      error = JStr ''Not Found'', traceId = tid, details = None\<rparr>)"
  using assms
  by (simp add: tryMapPrismaError_def getStatusText_values status_defs Let_def
        PRISMA_UNIQUE_VIOLATION_def PRISMA_RECORD_NOT_FOUND_def)

lemma tryMapPrismaError_result:
  assumes "tryMapPrismaError exception tid = Inr (Some body)"
  shows "statusCode body =
           (if caught_prop exception ''code'' = JStr ''P2002'' then 409 else 404)
         \<and> (caught_prop exception ''code'' = JStr ''P2002''
              \<or> caught_prop exception ''code'' = JStr ''P2025'')
         \<and> traceId body = tid \<and> well_formed body"
  using assms
  by (auto simp: tryMapPrismaError_def well_formed_def status_defs Let_def
        PRISMA_UNIQUE_VIOLATION_def PRISMA_RECORD_NOT_FOUND_def
      split: sum.splits if_splits option.splits)

lemma tryMapPrismaError_none:
  "tryMapPrismaError exception tid = Inr None \<longleftrightarrow> unknown_failure exception
     \<or> (instanceof_HttpException exception
          \<and> caught_prop exception ''code'' \<noteq> JStr ''P2002''
          \<and> caught_prop exception ''code'' \<noteq> JStr ''P2025'')"
  by (auto simp: tryMapPrismaError_def unknown_failure_def Let_def
        PRISMA_UNIQUE_VIOLATION_def PRISMA_RECORD_NOT_FOUND_def
      split: sum.splits if_splits)

subsection \<open>The dispatch and the effects of \<open>catch\<close>\<close>

lemma buildErrorResponse_not_http:
  "\<not> instanceof_HttpException exception \<Longrightarrow>
     buildErrorResponse node_env exception tid =
       (case tryMapPrismaError exception tid of
          Inl err \<Rightarrow> Inl err
        | Inr (Some prismaResult) \<Rightarrow> Inr prismaResult
        | Inr None \<Rightarrow> Inr (normalizeUnknownError node_env exception tid))"
  by (cases exception) (simp_all split: sum.splits option.splits)

lemma buildErrorResponse_unknown:
  "unknown_failure exception \<Longrightarrow>
     buildErrorResponse node_env exception tid
       = Inr (normalizeUnknownError node_env exception tid)"
  by (cases exception) (simp_all add: tryMapPrismaError_unknown, simp add: unknown_failure_def)

lemma normalizeUnknownError_well_formed:
  "well_formed (normalizeUnknownError node_env exception tid)"
  by (simp add: normalizeUnknownError_def well_formed_def Let_def)

lemma buildErrorResponse_not_http_result:
  assumes "\<not> instanceof_HttpException exception"
    and "buildErrorResponse node_env exception tid = Inr body"
  shows "statusCode body =
           (if caught_prop exception ''code'' = JStr ''P2002'' then 409
            else if caught_prop exception ''code'' = JStr ''P2025'' then 404
            else 500)
         \<and> traceId body = tid \<and> well_formed body"
proof (cases "tryMapPrismaError exception tid")
  case (Inl err)
  with assms show ?thesis by (simp add: buildErrorResponse_not_http)
next
  case (Inr mapped)
  show ?thesis
  proof (cases mapped)
    case None
    with Inr assms(1) have "unknown_failure exception"
      by (simp add: tryMapPrismaError_none)
    moreover from None Inr assms
    have "body = normalizeUnknownError node_env exception tid"
      by (simp add: buildErrorResponse_not_http)
    ultimately show ?thesis
      by (simp add: normalizeUnknownError_well_formed)
         (simp add: normalizeUnknownError_def unknown_failure_def status_defs Let_def
            PRISMA_UNIQUE_VIOLATION_def PRISMA_RECORD_NOT_FOUND_def)
  next
    case (Some prismaResult)
    with Inr assms have "tryMapPrismaError exception tid = Inr (Some body)"
      by (simp add: buildErrorResponse_not_http)
    from tryMapPrismaError_result [OF this] show ?thesis by auto
  qed
qed

lemma buildErrorResponse_traceId:
  "buildErrorResponse node_env exception tid = Inr body \<Longrightarrow> traceId body = tid"
proof (cases "instanceof_HttpException exception")
  case True
  assume built: "buildErrorResponse node_env exception tid = Inr body"
  from True obtain st raw msg ps where "exception = HttpException st raw msg ps"
    by (cases exception) simp_all
  with built show ?thesis by (simp add: normalizeHttpException_statusCode)
next
  case False
  assume "buildErrorResponse node_env exception tid = Inr body"
  with False show ?thesis by (simp add: buildErrorResponse_not_http_result)
qed

lemma catch_sends_body:
  "catch node_env tid exception = Inr fx \<longleftrightarrow>
     (\<exists>body. buildErrorResponse node_env exception tid = Inr body
        \<and> (instanceof_HttpException exception \<longrightarrow>
              safe_integer (statusCode body) \<and> renderable (message body))
        \<and> fx = \<lparr>log_written =
                   (if instanceof_HttpException exception
                    then [LogWarn (''HttpException '' @ show_int (statusCode body) @ '': ''
                                     @ json_stringify (message body))]
                    else if statusCode body \<ge> 500
                    then [LogError
                            (if instanceof_Error exception then error_message exception
                             else ''Unknown error'')
                            (if instanceof_Error exception then error_stack exception
                             else None)]
                    else []),
                 response_status = statusCode body,
                 response_json = body\<rparr>)"
  by (auto simp: catch_def Let_def split: sum.splits)


lemma safe_integer_404: "safe_integer 404"
  by (simp add: safe_integer_def)

text \<open>Scenario B of the specification: the not-found failure of the domain layer is
  rendered with its own status, message and status text.\<close>

lemma not_found_envelope:
  "catch node_env tid (NotFoundException msg)
   = Inr \<lparr>log_written = [LogWarn (''HttpException 404: '' @ json_stringify (JStr msg))],
          response_status = 404,
          response_json =
            \<lparr>statusCode = 404, message = JStr msg, error = JStr ''Not Found'',
             traceId = tid, details = None\<rparr>\<rparr>"
  by (simp add: catch_def NotFoundException_def NOT_FOUND_def normalizeHttpException_def
        formatValidationDetails_def get_prop_def own_prop_def coalesce_def show_int_def
        show_nat.simps digit_def safe_integer_def Let_def)

lemma repository_delete_absent:
  "ident \<notin> fst ` set tbl \<Longrightarrow> repository_delete tbl ident = (Inr \<lparr>affected = JNum 0\<rparr>, tbl)"
proof -
  assume "ident \<notin> fst ` set tbl"
  then have none: "\<forall>r \<in> set tbl. fst r \<noteq> ident" by auto
  then have "filter (\<lambda>r. fst r = ident) tbl = []" by (simp add: filter_empty_conv)
  moreover from none have "filter (\<lambda>r. fst r \<noteq> ident) tbl = tbl" by (simp add: filter_id_conv)
  ultimately show ?thesis by (simp add: repository_delete_def)
qed

section \<open>Validation failures (C1)\<close>

text \<open>
  C1, as the code has it. Take an \<open>HttpException\<close> of status \<open>st\<close> whose response object
  carries a non-empty \<open>message\<close> array, all plain strings or all per-field violation
  records. The normalizer returns an envelope whose \<open>statusCode\<close> is \<open>st\<close>, the status the
  exception carries (nothing sets it to 400), whose \<open>message\<close> is the single string
  \<open>Validation failed\<close>, and whose \<open>details.errors\<close> is a non-empty sequence. For strings
  it is the one entry with field \<open>body\<close> and the strings as messages, which is non-empty
  in both parts. For records it is one entry per record, in order, and every entry has a
  non-empty field and a non-empty \<open>messages\<close> exactly when no record has the empty
  string as \<open>property\<close> or an empty \<open>constraints\<close> object.
\<close>

theorem validation_envelope:
  assumes "own_prop ps ''message'' = JArr arr" and "arr \<noteq> []"
    and "list_all is_string arr \<or> list_all violation_record arr"
  shows "\<exists>es. normalizeHttpException st (JObj ps) msg tid =
                Inr \<lparr>statusCode = st, message = JStr ''Validation failed'',
                     error = coalesce (own_prop ps ''error'') (JStr (getStatusText st)),
                     traceId = tid, details = Some \<lparr>errors = es\<rparr>\<rparr>
           \<and> es \<noteq> []
           \<and> (list_all is_string arr \<longrightarrow> es = [\<lparr>field = JStr ''body'', messages = arr\<rparr>]
                 \<and> list_all nonempty_entry es)
           \<and> (list_all violation_record arr \<longrightarrow> es = map entry_of_record arr
                 \<and> (list_all nonempty_entry es \<longleftrightarrow>
                      (\<forall>e \<in> set arr. read_prop e ''property'' \<noteq> JStr []
                                       \<and> read_prop e ''constraints'' \<noteq> JObj [])))"
proof (cases "list_all is_string arr")
  case True
  then have "\<not> list_all violation_record arr"
    using assms(2) records_not_strings by blast
  moreover have "validation_errors arr = Inr [\<lparr>field = JStr ''body'', messages = arr\<rparr>]"
    using True by (rule validation_errors_strings)
  ultimately show ?thesis
    using assms(1,2) True
    by (simp add: normalizeHttpException_validation nonempty_entry_def)
next
  case False
  with assms(3) have recs: "list_all violation_record arr" by simp
  then have "validation_errors arr = Inr (map entry_of_record arr)"
    using assms(2) by (simp add: validation_errors_records)
  moreover have "list_all nonempty_entry (map entry_of_record arr) \<longleftrightarrow>
      (\<forall>e \<in> set arr. read_prop e ''property'' \<noteq> JStr []
                       \<and> read_prop e ''constraints'' \<noteq> JObj [])"
    using recs by (auto simp: list_all_iff entry_of_record_nonempty)
  ultimately show ?thesis
    using assms(1,2) False recs
    by (simp add: normalizeHttpException_validation)
qed

text \<open>Scenario A of the specification: a body below the minimum age.\<close>

theorem validation_envelope_witness:
  "own_prop [(''message'', JArr [JObj [(''property'', JStr ''age''),
                                      (''constraints'', JObj [(''min'', JStr ''age must be >= 6'')])]]),
             (''error'', JStr ''Bad Request''), (''statusCode'', JNum 400)] ''message''
     = JArr [JObj [(''property'', JStr ''age''),
                   (''constraints'', JObj [(''min'', JStr ''age must be >= 6'')])]]
   \<and> list_all violation_record
         [JObj [(''property'', JStr ''age''),
                (''constraints'', JObj [(''min'', JStr ''age must be >= 6'')])]]
   \<and> normalizeHttpException 400
         (JObj [(''message'', JArr [JObj [(''property'', JStr ''age''),
                                         (''constraints'', JObj [(''min'', JStr ''age must be >= 6'')])]]),
                (''error'', JStr ''Bad Request''), (''statusCode'', JNum 400)])
         ''Bad Request Exception'' (Some ''trace-1'')
       = Inr \<lparr>statusCode = 400, message = JStr ''Validation failed'',
              error = JStr ''Bad Request'', traceId = Some ''trace-1'',
              details = Some \<lparr>errors = [\<lparr>field = JStr ''age'',
                                           messages = [JStr ''age must be >= 6'']\<rparr>]\<rparr>\<rparr>"
  using validation_envelope
    [of "[(''message'', JArr [JObj [(''property'', JStr ''age''),
                                   (''constraints'', JObj [(''min'', JStr ''age must be >= 6'')])]]),
          (''error'', JStr ''Bad Request''), (''statusCode'', JNum 400)]"
        "[JObj [(''property'', JStr ''age''),
                (''constraints'', JObj [(''min'', JStr ''age must be >= 6'')])]]"
        400 "''Bad Request Exception''" "Some ''trace-1''"]
  by (simp add: own_prop_def violation_record_def entry_of_record_def coalesce_def)

text \<open>The statement with a status forced to 400 and entries that are never empty fails
  for a validation payload carried by a 422 whose record has an empty property name and
  no constraint: the status stays 422, the field is empty and so is \<open>messages\<close>.\<close>

theorem validation_envelope_counterexample:
  "normalizeHttpException 422
     (JObj [(''message'', JArr [JObj [(''property'', JStr ''''), (''constraints'', JObj [])]]),
            (''error'', JStr ''Unprocessable Entity''), (''statusCode'', JNum 422)])
     ''Unprocessable Entity Exception'' None
   = Inr \<lparr>statusCode = 422, message = JStr ''Validation failed'',
          error = JStr ''Unprocessable Entity'', traceId = None,
          details = Some \<lparr>errors = [\<lparr>field = JStr '''', messages = []\<rparr>]\<rparr>\<rparr>"
  by (simp add: normalizeHttpException_def formatValidationDetails_def validation_errors_def
        violation_item_def get_prop_def own_prop_def coalesce_def Let_def)

section \<open>The logging policy (C2)\<close>

text \<open>
  C2, as the code has it. Whenever \<open>catch\<close> sends a response it has written at most one
  log entry. For an \<open>HttpException\<close>, whatever its status, the entry is one warning whose
  text is \<open>HttpException\<close>, the status, a colon and the JSON text of the rendered message,
  with no stack. For any other caught value whose rendered status is 500 or above, the
  entry is one error carrying the failure's own message and its stack when it is an
  \<open>Error\<close>, and the text \<open>Unknown error\<close> with no stack otherwise.
\<close>

theorem log_policy:
  assumes "catch node_env tid exception = Inr fx"
  shows "length (log_written fx) \<le> 1
    \<and> (instanceof_HttpException exception \<longrightarrow>
          log_written fx =
            [LogWarn (''HttpException '' @ show_int (response_status fx) @ '': ''
                        @ json_stringify (message (response_json fx)))])
    \<and> (\<not> instanceof_HttpException exception \<and> response_status fx \<ge> 500 \<longrightarrow>
          log_written fx =
            [LogError (if instanceof_Error exception then error_message exception
                       else ''Unknown error'')
                      (if instanceof_Error exception then error_stack exception else None)])"
  using assms by (auto simp: catch_sends_body)

theorem log_policy_witness:
  "catch (Some ''production'') (Some ''trace-1'')
     (ErrorInstance ''connection lost'' (Some ''at PrismaService.query'') [])
   = Inr \<lparr>log_written = [LogError ''connection lost'' (Some ''at PrismaService.query'')],
          response_status = 500,
          response_json =
            \<lparr>statusCode = 500, message = JStr ''Internal server error'',
             error = JStr ''Internal Server Error'', traceId = Some ''trace-1'',
             details = None\<rparr>\<rparr>
   \<and> log_written
        \<lparr>log_written = [LogError ''connection lost'' (Some ''at PrismaService.query'')],
         response_status = 500,
         response_json =
           \<lparr>statusCode = 500, message = JStr ''Internal server error'',
            error = JStr ''Internal Server Error'', traceId = Some ''trace-1'',
            details = None\<rparr>\<rparr>
     = [LogError ''connection lost'' (Some ''at PrismaService.query'')]"
proof -
  let ?exc = "ErrorInstance ''connection lost'' (Some ''at PrismaService.query'') []"
  let ?fx = "\<lparr>log_written = [LogError ''connection lost'' (Some ''at PrismaService.query'')],
          response_status = 500,
          response_json =
            \<lparr>statusCode = 500, message = JStr ''Internal server error'',
             error = JStr ''Internal Server Error'', traceId = Some ''trace-1'',
             details = None\<rparr>\<rparr>"
  have run: "catch (Some ''production'') (Some ''trace-1'') ?exc = Inr ?fx"
    by (simp add: catch_def tryMapPrismaError_def normalizeUnknownError_def own_prop_def
          getStatusText_values status_defs PRISMA_UNIQUE_VIOLATION_def
          PRISMA_RECORD_NOT_FOUND_def Let_def)
  from log_policy [OF run] have "log_written ?fx
      = [LogError ''connection lost'' (Some ''at PrismaService.query'')]"
    by simp
  with run show ?thesis by blast
qed

text \<open>The level is chosen by the kind of the caught value and not by the status alone:
  an \<open>HttpException\<close> of status 503 is logged as a warning.\<close>

theorem log_policy_counterexample:
  "catch (Some ''production'') (Some ''trace-1'')
     (HttpException 503 (JStr ''Database unavailable'') ''Database unavailable'' [])
   = Inr \<lparr>log_written =
            [LogWarn (''HttpException 503: '' @ json_stringify (JStr ''Database unavailable''))],
          response_status = 503,
          response_json =
            \<lparr>statusCode = 503, message = JStr ''Database unavailable'',
             error = JStr ''Error'', traceId = Some ''trace-1'', details = None\<rparr>\<rparr>"
  by (simp add: catch_def normalizeHttpException_def coalesce_def getStatusText_def
        STATUS_TEXT_def status_defs show_int_def show_nat.simps digit_def safe_integer_def
        Let_def)

section \<open>Explicit statuses (C3)\<close>

text \<open>
  C3, as the code has it. Whenever the filter answers an \<open>HttpException\<close> of status \<open>st\<close>,
  the status of the HTTP response and the \<open>statusCode\<close> of the envelope both equal \<open>st\<close>,
  also when the payload passes the validation-shape test: no status is rerouted to 400.
\<close>

theorem http_status_kept:
  assumes "catch node_env tid (HttpException st raw msg ps) = Inr fx"
  shows "response_status fx = st \<and> statusCode (response_json fx) = st"
proof -
  from assms obtain body
    where "buildErrorResponse node_env (HttpException st raw msg ps) tid = Inr body"
      and "response_status fx = statusCode body" and "response_json fx = body"
    by (auto simp: catch_sends_body)
  then show ?thesis by (simp add: normalizeHttpException_statusCode)
qed

text \<open>A validation failure as the input-binding layer raises it, with status 400.\<close>

theorem http_status_kept_witness:
  "catch None (Some ''trace-1'')
     (HttpException 400
        (JObj [(''message'', JArr [JStr ''age must not be less than 6'']),
               (''error'', JStr ''Bad Request''), (''statusCode'', JNum 400)])
        ''Bad Request Exception'' [])
   = Inr \<lparr>log_written =
            [LogWarn (''HttpException 400: '' @ json_stringify (JStr ''Validation failed''))],
          response_status = 400,
          response_json =
            \<lparr>statusCode = 400, message = JStr ''Validation failed'',
             error = JStr ''Bad Request'', traceId = Some ''trace-1'',
             details = Some \<lparr>errors = [\<lparr>field = JStr ''body'',
                                          messages = [JStr ''age must not be less than 6'']\<rparr>]\<rparr>\<rparr>\<rparr>
   \<and> response_status
        \<lparr>log_written =
            [LogWarn (''HttpException 400: '' @ json_stringify (JStr ''Validation failed''))],
         response_status = 400,
         response_json =
           \<lparr>statusCode = 400, message = JStr ''Validation failed'',
            error = JStr ''Bad Request'', traceId = Some ''trace-1'',
            details = Some \<lparr>errors = [\<lparr>field = JStr ''body'',
                                         messages = [JStr ''age must not be less than 6'']\<rparr>]\<rparr>\<rparr>\<rparr>
     = 400"
proof -
  let ?exc = "HttpException 400
        (JObj [(''message'', JArr [JStr ''age must not be less than 6'']),
               (''error'', JStr ''Bad Request''), (''statusCode'', JNum 400)])
        ''Bad Request Exception'' []"
  let ?fx = "\<lparr>log_written =
            [LogWarn (''HttpException 400: '' @ json_stringify (JStr ''Validation failed''))],
          response_status = 400,
          response_json =
            \<lparr>statusCode = 400, message = JStr ''Validation failed'',
             error = JStr ''Bad Request'', traceId = Some ''trace-1'',
             details = Some \<lparr>errors = [\<lparr>field = JStr ''body'',
                                          messages = [JStr ''age must not be less than 6'']\<rparr>]\<rparr>\<rparr>\<rparr>"
  have run: "catch None (Some ''trace-1'') ?exc = Inr ?fx"
    by (simp add: catch_def normalizeHttpException_def formatValidationDetails_def
          validation_errors_def own_prop_def coalesce_def show_int_def show_nat.simps digit_def
          safe_integer_def Let_def)
  from http_status_kept [OF run] have "response_status ?fx = 400"
    by simp
  with run show ?thesis by blast
qed

text \<open>A validation-shaped payload carried by a 422 is answered with 422, not 400.\<close>

theorem http_status_kept_counterexample:
  "catch None None
     (HttpException 422
        (JObj [(''message'', JArr [JStr ''name should not be empty'']),
               (''error'', JStr ''Unprocessable Entity''), (''statusCode'', JNum 422)])
        ''Unprocessable Entity Exception'' [])
   = Inr \<lparr>log_written =
            [LogWarn (''HttpException 422: '' @ json_stringify (JStr ''Validation failed''))],
          response_status = 422,
          response_json =
            \<lparr>statusCode = 422, message = JStr ''Validation failed'',
             error = JStr ''Unprocessable Entity'', traceId = None,
             details = Some \<lparr>errors = [\<lparr>field = JStr ''body'',
                                          messages = [JStr ''name should not be empty'']\<rparr>]\<rparr>\<rparr>\<rparr>"
  by (simp add: catch_def normalizeHttpException_def formatValidationDetails_def
        validation_errors_def own_prop_def coalesce_def show_int_def show_nat.simps digit_def
        safe_integer_def Let_def)

section \<open>Persistence vendor codes (C4)\<close>

text \<open>
  C4, as the code has it. Take a caught value that is not an \<open>HttpException\<close> and whose
  \<open>meta.target\<close>, if it carries the code P2002, has the declared shape: absent, \<open>null\<close> or
  an array of strings. Then an envelope is built, and: with code P2002 it has
  \<open>statusCode\<close> 409, \<open>error\<close> \<open>Conflict\<close> and a message that names the fields of
  \<open>meta.target\<close>, joined by a comma and a space, when that joined text is not empty, and
  the message \<open>Resource already exists\<close> otherwise; with code P2025 it has \<open>statusCode\<close>
  404, \<open>error\<close> \<open>Not Found\<close> and the message \<open>Record not found\<close>; with any other code
  or none it has \<open>statusCode\<close> 500.
\<close>

theorem vendor_code_mapping:
  assumes "\<not> instanceof_HttpException exception"
    and "caught_prop exception ''code'' = JStr ''P2002'' \<longrightarrow> declared_target exception"
  shows "\<exists>body. buildErrorResponse node_env exception tid = Inr body
    \<and> (caught_prop exception ''code'' = JStr ''P2002'' \<longrightarrow>
          statusCode body = 409 \<and> error body = JStr ''Conflict''
          \<and> message body =
              (if intercalate '', '' (field_names exception) \<noteq> []
               then JStr (''Duplicate value for field(s): ''
                            @ intercalate '', '' (field_names exception))
               else JStr ''Resource already exists''))
    \<and> (caught_prop exception ''code'' = JStr ''P2025'' \<longrightarrow>
          statusCode body = 404 \<and> error body = JStr ''Not Found''
          \<and> message body = JStr ''Record not found'')
    \<and> (caught_prop exception ''code'' \<noteq> JStr ''P2002''
          \<and> caught_prop exception ''code'' \<noteq> JStr ''P2025'' \<longrightarrow>
          statusCode body = 500)"
proof -
  consider (unique) "caught_prop exception ''code'' = JStr ''P2002''"
    | (missing) "caught_prop exception ''code'' = JStr ''P2025''"
    | (other) "caught_prop exception ''code'' \<noteq> JStr ''P2002''"
        "caught_prop exception ''code'' \<noteq> JStr ''P2025''"
    by blast
  then show ?thesis
  proof cases
    case unique
    then have code: "caught_prop exception ''code'' = JStr PRISMA_UNIQUE_VIOLATION"
      by (simp add: PRISMA_UNIQUE_VIOLATION_def)
    from unique assms(2) have "declared_target exception" by simp
    from tryMapPrismaError_unique [OF code this, of tid] assms(1) unique
    show ?thesis by (simp add: buildErrorResponse_not_http)
  next
    case missing
    then have "caught_prop exception ''code'' = JStr PRISMA_RECORD_NOT_FOUND"
      by (simp add: PRISMA_RECORD_NOT_FOUND_def)
    from tryMapPrismaError_not_found [OF this, of tid] assms(1) missing
    show ?thesis by (simp add: buildErrorResponse_not_http)
  next
    case other
    with assms(1) have "unknown_failure exception"
      by (simp add: unknown_failure_def PRISMA_UNIQUE_VIOLATION_def PRISMA_RECORD_NOT_FOUND_def)
    then have "buildErrorResponse node_env exception tid
                 = Inr (normalizeUnknownError node_env exception tid)"
      by (rule buildErrorResponse_unknown)
    with other show ?thesis
      by (simp add: normalizeUnknownError_def status_defs Let_def)
  qed
qed

text \<open>Scenario C of the specification: a duplicate email.\<close>

theorem vendor_code_mapping_witness:
  "\<not> instanceof_HttpException
       (ErrorInstance ''Unique constraint failed on the fields: (email)'' None
          [(''code'', JStr ''P2002''), (''meta'', JObj [(''target'', JArr [JStr ''email''])])])
   \<and> declared_target
       (ErrorInstance ''Unique constraint failed on the fields: (email)'' None
          [(''code'', JStr ''P2002''), (''meta'', JObj [(''target'', JArr [JStr ''email''])])])
   \<and> (\<exists>body. buildErrorResponse None
         (ErrorInstance ''Unique constraint failed on the fields: (email)'' None
            [(''code'', JStr ''P2002''), (''meta'', JObj [(''target'', JArr [JStr ''email''])])])
         (Some ''trace-1'') = Inr body
       \<and> statusCode body = 409 \<and> error body = JStr ''Conflict''
       \<and> message body = JStr ''Duplicate value for field(s): email'')"
  using vendor_code_mapping
    [of "ErrorInstance ''Unique constraint failed on the fields: (email)'' None
          [(''code'', JStr ''P2002''), (''meta'', JObj [(''target'', JArr [JStr ''email''])])]"
        None "Some ''trace-1''"]
  by (simp add: declared_target_def field_names_def own_prop_def opt_prop_def Let_def)

text \<open>With code P2002 and a \<open>meta.target\<close> that is a string (a constraint name) the
  call of \<open>join\<close> raises and no envelope is built.\<close>

theorem vendor_code_mapping_counterexample:
  "buildErrorResponse (Some ''production'')
     (ErrorInstance ''Unique constraint failed on the constraint: User_email_key''
        (Some ''at PrismaService.create'')
        [(''code'', JStr ''P2002''), (''meta'', JObj [(''target'', JStr ''User_email_key'')])])
     (Some ''trace-1'')
   = Inl TypeError"
  by (simp add: tryMapPrismaError_def join_target_def own_prop_def opt_prop_def
        PRISMA_UNIQUE_VIOLATION_def Let_def)

section \<open>Unknown failures in production (C5)\<close>

text \<open>
  C5. With \<open>NODE_ENV\<close> equal to \<open>production\<close>, every caught value that is not an
  \<open>HttpException\<close> and carries no recognised vendor code is answered with status 500 and
  the envelope of \<open>statusCode\<close> 500, \<open>message\<close> \<open>Internal server error\<close> and \<open>error\<close>
  \<open>Internal Server Error\<close>, whatever the failure's own message is; that message and the
  stack go to the one error entry of the log only.
\<close>

theorem hardened_unknown_failure:
  assumes "unknown_failure exception"
  shows "catch (Some ''production'') tid exception
         = Inr \<lparr>log_written =
                  [LogError (if instanceof_Error exception then error_message exception
                             else ''Unknown error'')
                            (if instanceof_Error exception then error_stack exception
                             else None)],
                response_status = 500,
                response_json =
                  \<lparr>statusCode = 500, message = JStr ''Internal server error'',
                   error = JStr ''Internal Server Error'', traceId = tid,
                   details = None\<rparr>\<rparr>"
proof -
  have "\<not> instanceof_HttpException exception"
    using assms by (simp add: unknown_failure_def)
  moreover have "buildErrorResponse (Some ''production'') exception tid
      = Inr \<lparr>statusCode = 500, message = JStr ''Internal server error'',
             error = JStr ''Internal Server Error'', traceId = tid, details = None\<rparr>"
    using assms
    by (simp add: buildErrorResponse_unknown normalizeUnknownError_def getStatusText_values
          status_defs Let_def)
  ultimately show ?thesis by (simp add: catch_def Let_def)
qed

text \<open>Scenario D of the specification: a dropped persistence connection.\<close>

theorem hardened_unknown_failure_witness:
  "unknown_failure
     (ErrorInstance ''connect ECONNREFUSED 10.0.0.5:5432'' (Some ''at Socket.connect'')
        [(''code'', JStr ''P1001'')])
   \<and> catch (Some ''production'') (Some ''trace-1'')
       (ErrorInstance ''connect ECONNREFUSED 10.0.0.5:5432'' (Some ''at Socket.connect'')
          [(''code'', JStr ''P1001'')])
     = Inr \<lparr>log_written =
              [LogError ''connect ECONNREFUSED 10.0.0.5:5432'' (Some ''at Socket.connect'')],
            response_status = 500,
            response_json =
              \<lparr>statusCode = 500, message = JStr ''Internal server error'',
               error = JStr ''Internal Server Error'', traceId = Some ''trace-1'',
               details = None\<rparr>\<rparr>"
  using hardened_unknown_failure
    [of "ErrorInstance ''connect ECONNREFUSED 10.0.0.5:5432'' (Some ''at Socket.connect'')
          [(''code'', JStr ''P1001'')]" "Some ''trace-1''"]
  by (simp add: unknown_failure_def own_prop_def PRISMA_UNIQUE_VIOLATION_def
        PRISMA_RECORD_NOT_FOUND_def)

section \<open>Totality and priority of the classification (C6)\<close>




section \<open>The trace id of the envelope (C7)\<close>

text \<open>
  C7, as the code has it. Every envelope that the filter sends has as \<open>traceId\<close> exactly
  the value the trace context returned: the identifier when there is one, and no
  \<open>traceId\<close> (neither \<open>null\<close> nor any other value) when there is none. The filter never
  makes or changes an identifier. A caught value on which the filter itself raises gets
  no envelope, and so no \<open>traceId\<close>.
\<close>

theorem trace_id_attached:
  assumes "catch node_env tid exception = Inr fx"
  shows "traceId (response_json fx) = tid"
proof -
  from assms obtain body where "buildErrorResponse node_env exception tid = Inr body"
    and "response_json fx = body"
    by (auto simp: catch_sends_body)
  then show ?thesis by (simp add: buildErrorResponse_traceId)
qed

theorem trace_id_attached_witness:
  "catch None (Some ''5f2b7c1e-trace'') (Thrown (JStr ''boom''))
   = Inr \<lparr>log_written = [LogError ''Unknown error'' None],
          response_status = 500,
          response_json =
            \<lparr>statusCode = 500, message = JStr ''Internal server error'',
             error = JStr ''Internal Server Error'', traceId = Some ''5f2b7c1e-trace'',
             details = None\<rparr>\<rparr>
   \<and> traceId
        (response_json
          \<lparr>log_written = [LogError ''Unknown error'' None],
           response_status = 500,
           response_json =
             \<lparr>statusCode = 500, message = JStr ''Internal server error'',
              error = JStr ''Internal Server Error'', traceId = Some ''5f2b7c1e-trace'',
              details = None\<rparr>\<rparr>)
     = Some ''5f2b7c1e-trace''
   \<and> catch None None (Thrown (JStr ''boom''))
     = Inr \<lparr>log_written = [LogError ''Unknown error'' None],
            response_status = 500,
            response_json =
              \<lparr>statusCode = 500, message = JStr ''Internal server error'',
               error = JStr ''Internal Server Error'', traceId = None,
               details = None\<rparr>\<rparr>"
proof -
  have run: "catch None tid (Thrown (JStr ''boom''))
      = Inr \<lparr>log_written = [LogError ''Unknown error'' None],
             response_status = 500,
             response_json =
               \<lparr>statusCode = 500, message = JStr ''Internal server error'',
                error = JStr ''Internal Server Error'', traceId = tid,
                details = None\<rparr>\<rparr>" for tid
    by (simp add: catch_def tryMapPrismaError_def normalizeUnknownError_def opt_prop_def
          getStatusText_values status_defs Let_def)
  from trace_id_attached [OF run [of "Some ''5f2b7c1e-trace''"]] run show ?thesis
    by simp
qed

text \<open>With a request scope active, a value carrying the code P2002 and a number as
  \<open>meta.target\<close> makes the filter raise: no envelope carries the identifier.\<close>

theorem trace_id_attached_counterexample:
  "catch None (Some ''5f2b7c1e-trace'')
     (Thrown (JObj [(''code'', JStr ''P2002''), (''meta'', JObj [(''target'', JNum 7)])]))
   = Inl TypeError"
  by (simp add: catch_def tryMapPrismaError_def join_target_def own_prop_def opt_prop_def
        PRISMA_UNIQUE_VIOLATION_def Let_def)

section \<open>The validation-detail formatter (C8)\<close>

text \<open>
  C8, as the code has it. For a non-empty array of plain strings the formatter returns
  exactly one entry, with the field \<open>body\<close> and all the strings as messages. For a
  non-empty array of per-field violation records it returns one entry per record, in the
  order of the array, each with the record's field name and its constraint messages;
  records are not merged, so the entries have pairwise distinct fields exactly when the
  records name pairwise distinct fields.
\<close>

theorem formatValidationDetails_entries:
  assumes "arr \<noteq> []"
  shows "(list_all is_string arr \<longrightarrow>
           formatValidationDetails (JArr arr) raw
             = Inr (Some \<lparr>errors = [\<lparr>field = JStr ''body'', messages = arr\<rparr>]\<rparr>))
    \<and> (list_all violation_record arr \<longrightarrow>
           formatValidationDetails (JArr arr) raw
             = Inr (Some \<lparr>errors = map entry_of_record arr\<rparr>)
           \<and> (distinct (map field (map entry_of_record arr))
                \<longleftrightarrow> distinct (map (\<lambda>e. read_prop e ''property'') arr)))"
  using assms
  by (simp add: formatValidationDetails_array validation_errors_strings
        validation_errors_records field_entry_of_record comp_def)

theorem formatValidationDetails_entries_witness:
  "formatValidationDetails
     (JArr [JStr ''name should not be empty'', JStr ''age must be an integer''])
     (JObj [(''statusCode'', JNum 400)])
   = Inr (Some \<lparr>errors =
            [\<lparr>field = JStr ''body'',
              messages = [JStr ''name should not be empty'', JStr ''age must be an integer'']\<rparr>]\<rparr>)
   \<and> list_all violation_record
        [JObj [(''property'', JStr ''name''),
               (''constraints'', JObj [(''isNotEmpty'', JStr ''name should not be empty'')])],
         JObj [(''property'', JStr ''age''),
               (''constraints'', JObj [(''isInt'', JStr ''age must be an integer''),
                                       (''min'', JStr ''age must not be less than 6'')])]]
   \<and> formatValidationDetails
       (JArr [JObj [(''property'', JStr ''name''),
                    (''constraints'', JObj [(''isNotEmpty'', JStr ''name should not be empty'')])],
              JObj [(''property'', JStr ''age''),
                    (''constraints'', JObj [(''isInt'', JStr ''age must be an integer''),
                                            (''min'', JStr ''age must not be less than 6'')])]])
       (JObj [(''statusCode'', JNum 400)])
     = Inr (Some \<lparr>errors =
              [\<lparr>field = JStr ''name'', messages = [JStr ''name should not be empty'']\<rparr>,
               \<lparr>field = JStr ''age'',
                 messages = [JStr ''age must be an integer'',
                             JStr ''age must not be less than 6'']\<rparr>]\<rparr>)"
  using formatValidationDetails_entries
    [of "[JStr ''name should not be empty'', JStr ''age must be an integer'']"
        "JObj [(''statusCode'', JNum 400)]"]
    formatValidationDetails_entries
    [of "[JObj [(''property'', JStr ''name''),
               (''constraints'', JObj [(''isNotEmpty'', JStr ''name should not be empty'')])],
         JObj [(''property'', JStr ''age''),
               (''constraints'', JObj [(''isInt'', JStr ''age must be an integer''),
                                       (''min'', JStr ''age must not be less than 6'')])]]"
        "JObj [(''statusCode'', JNum 400)]"]
  by (simp add: violation_record_def entry_of_record_def own_prop_def)

text \<open>Two records that name the same field give two entries for that one field.\<close>

theorem formatValidationDetails_entries_counterexample:
  "formatValidationDetails
     (JArr [JObj [(''property'', JStr ''age''),
                  (''constraints'', JObj [(''min'', JStr ''age must not be less than 6'')])],
            JObj [(''property'', JStr ''age''),
                  (''constraints'', JObj [(''isInt'', JStr ''age must be an integer'')])]])
     (JObj [(''statusCode'', JNum 400)])
   = Inr (Some \<lparr>errors =
            [\<lparr>field = JStr ''age'', messages = [JStr ''age must not be less than 6'']\<rparr>,
             \<lparr>field = JStr ''age'', messages = [JStr ''age must be an integer'']\<rparr>]\<rparr>)"
  by (simp add: formatValidationDetails_def validation_errors_def violation_item_def
        get_prop_def own_prop_def coalesce_def)

section \<open>Removing a student (C9)\<close>

text \<open>
  C9. Deleting an id that is not stored is not a failure of the repository: it returns
  an affected count of zero and leaves the table as it was. Whenever the repository's
  \<open>delete\<close> returns, \<open>remove\<close> raises the not-found failure of status 404 and message
  \<open>Student <id> not found\<close> if the affected count is zero, and completes without a
  failure otherwise.
\<close>

theorem remove_not_found:
  "(ident \<notin> fst ` set tbl \<longrightarrow>
      repository_delete tbl ident = (Inr \<lparr>affected = JNum 0\<rparr>, tbl))
   \<and> (delete ident = Inr result \<longrightarrow>
        remove delete ident =
          (if affected result = JNum 0
           then Inl (HttpException 404
                       (JObj [(''message'', JStr (''Student '' @ ident @ '' not found'')),
                              (''error'', JStr ''Not Found''), (''statusCode'', JNum 404)])
                       (''Student '' @ ident @ '' not found'') [])
           else Inr ()))"
  by (simp add: repository_delete_absent remove_def NotFoundException_def NOT_FOUND_def)

theorem remove_not_found_witness:
  "repository_delete [(''s1'', ''Ada'')] ''s2'' = (Inr \<lparr>affected = JNum 0\<rparr>, [(''s1'', ''Ada'')])
   \<and> remove (\<lambda>i. fst (repository_delete [(''s1'', ''Ada'')] i)) ''s2''
     = Inl (HttpException 404
              (JObj [(''message'', JStr ''Student s2 not found''),
                     (''error'', JStr ''Not Found''), (''statusCode'', JNum 404)])
              ''Student s2 not found'' [])
   \<and> remove (\<lambda>i. fst (repository_delete [(''s1'', ''Ada'')] i)) ''s1'' = Inr ()
   \<and> remove (\<lambda>i. Inr \<lparr>affected = JUndefined\<rparr>) ''s2'' = Inr ()"
  using remove_not_found [of "''s2''" "[(''s1'', ''Ada'')]"
          "\<lambda>i. fst (repository_delete [(''s1'', ''Ada'')] i)" "\<lparr>affected = JNum 0\<rparr>"]
    remove_not_found [of "''s1''" "[(''s1'', ''Ada'')]"
          "\<lambda>i. fst (repository_delete [(''s1'', ''Ada'')] i)" "\<lparr>affected = JNum 1\<rparr>"]
    remove_not_found [of "''s2''" "[(''s1'', ''Ada'')]"
          "\<lambda>i. Inr \<lparr>affected = JUndefined\<rparr>" "\<lparr>affected = JUndefined\<rparr>"]
  by (simp add: repository_delete_def)

section \<open>Values that are not errors (C10)\<close>

text \<open>
  C10. A caught value that is not an \<open>Error\<close> and carries no recognised vendor code is
  answered, whatever \<open>NODE_ENV\<close> is, with the message \<open>Internal server error\<close>; nothing
  of the value reaches the envelope or the log.
\<close>

theorem thrown_value_message:
  assumes "unknown_failure (Thrown v)"
  shows "catch node_env tid (Thrown v)
         = Inr \<lparr>log_written = [LogError ''Unknown error'' None],
                response_status = 500,
                response_json =
                  \<lparr>statusCode = 500, message = JStr ''Internal server error'',
                   error = JStr ''Internal Server Error'', traceId = tid,
                   details = None\<rparr>\<rparr>"
proof -
  have "buildErrorResponse node_env (Thrown v) tid
      = Inr (normalizeUnknownError node_env (Thrown v) tid)"
    using assms by (rule buildErrorResponse_unknown)
  then show ?thesis
    by (simp add: catch_def normalizeUnknownError_def getStatusText_values status_defs Let_def
          del: buildErrorResponse.simps)
qed

theorem thrown_value_message_witness:
  "unknown_failure (Thrown (JStr ''disk quota exceeded on /var/lib/app''))
   \<and> catch (Some ''development'') None (Thrown (JStr ''disk quota exceeded on /var/lib/app''))
     = Inr \<lparr>log_written = [LogError ''Unknown error'' None],
            response_status = 500,
            response_json =
              \<lparr>statusCode = 500, message = JStr ''Internal server error'',
               error = JStr ''Internal Server Error'', traceId = None,
               details = None\<rparr>\<rparr>"
  using thrown_value_message
    [of "JStr ''disk quota exceeded on /var/lib/app''" "Some ''development''" None]
  by (simp add: unknown_failure_def opt_prop_def)

end
